theory Spec2Isabelle
  imports Main "HOL-Library.Multiset"
begin

section \<open>The DeviceShare scheduler plugin\<close>

text \<open>
  A shallow embedding of \<^verbatim>\<open>pkg/scheduler/plugins/deviceshare/plugin.go\<close>: the
  per-attempt state, the five phases \<^verbatim>\<open>PreFilter\<close>, \<^verbatim>\<open>Filter\<close>,
  \<^verbatim>\<open>Reserve\<close>, \<^verbatim>\<open>Unreserve\<close> and \<^verbatim>\<open>PreBind\<close>, and the
  lookup \<^verbatim>\<open>getPreFilterState\<close>. Go methods that mutate objects through pointers
  take the world and return the new one; every call a phase makes on a collaborator
  (the device cache, a node's lock, the allocator, the API client) is appended to a trace.
\<close>

subsection \<open>Data\<close>

text \<open>\<^verbatim>\<open>schedulingv1alpha1.DeviceType\<close> is a string type with three named constants;
  any other value falls into the \<^verbatim>\<open>default\<close> branch of the switch.\<close>

datatype DeviceType = GPU | RDMA | FPGA | OtherDevice string

text \<open>\<^verbatim>\<open>corev1.ResourceList\<close>: a Go map from resource name to quantity. A quantity is
  taken by its numeric value.\<close>

type_synonym ResourceList = "string \<rightharpoonup> int"

text \<open>Modelled from the spec: \<^verbatim>\<open>apiext.DeviceAllocations\<close> is declared outside
  plugin.go; the spec describes an Allocation as a mapping from device type to an ordered
  sequence of (minor, amount) pairs. It is kept as an association list with one entry per
  device type, so that Go's \<^verbatim>\<open>len\<close> of the map is the length of the list and the
  \<^verbatim>\<open>nil\<close> map is the empty list.\<close>

type_synonym DeviceAllocations = "(DeviceType \<times> (int \<times> int) list) list"

text \<open>\<^verbatim>\<open>framework.Code\<close> and \<^verbatim>\<open>*framework.Status\<close>; the \<^verbatim>\<open>nil\<close> status is
  \<open>None\<close>.\<close>

datatype Code = Success | Error | Unschedulable | UnschedulableAndUnresolvable | Wait | Skip

type_synonym Status = "(Code \<times> string) option"

definition NewStatus :: "Code \<Rightarrow> string \<Rightarrow> Status" where
  "NewStatus code reason = Some (code, reason)"

definition Name :: string where
  "Name = ''DeviceShare''"

definition stateKey :: string where
  "stateKey = Name"

definition ErrMissingDevice :: string where
  "ErrMissingDevice = ''node(s) missing Device''"

definition ErrInsufficientDevices :: string where
  "ErrInsufficientDevices = ''Insufficient Devices''"

record preFilterState =
  skip :: bool
  allocationResult :: DeviceAllocations
  convertedDeviceResource :: ResourceList

text \<open>The attempt state lives behind a pointer. Objects are kept in a store indexed by
  address; a \<^verbatim>\<open>framework.CycleState\<close> maps a key to the address it holds.\<close>

type_synonym ref = nat

type_synonym CycleState = "string \<rightharpoonup> ref"

text \<open>\<^verbatim>\<open>func (s *preFilterState) Clone() framework.StateData { return s }\<close>\<close>

definition Clone :: "ref \<Rightarrow> ref" where
  "Clone s = s"

text \<open>Errors of the API client, by the two classes the retry wrapper looks at.\<close>

datatype api_error = Conflict string | TooManyRequests string | OtherFailure string

fun err_Error :: "api_error \<Rightarrow> string" where
  "err_Error (Conflict m) = m"
| "err_Error (TooManyRequests m) = m"
| "err_Error (OtherFailure m) = m"

datatype event =
    EvGetNodeDevice string
  | EvRLock string
  | EvRUnlock string
  | EvLock string
  | EvUnlock string
  | EvAllocate string
  | EvReserve string
  | EvUnreserve string
  | EvPatch

text \<open>The \<^verbatim>\<open>Allocator\<close> interface. Each method receives the node's record through a
  pointer, so each returns the record as it leaves it; \<^verbatim>\<open>Allocate\<close> returns both of
  Go's results, the allocation and the error.\<close>

record ('pod, 'nd) Allocator =
  Allocator_Allocate ::
    "string \<Rightarrow> 'pod \<Rightarrow> ResourceList \<Rightarrow> 'nd \<Rightarrow> DeviceAllocations \<times> string option \<times> 'nd"
  Allocator_Reserve :: "'pod \<Rightarrow> 'nd \<Rightarrow> DeviceAllocations \<Rightarrow> 'nd"
  Allocator_Unreserve :: "'pod \<Rightarrow> 'nd \<Rightarrow> DeviceAllocations \<Rightarrow> 'nd"

text \<open>What plugin.go reaches through the \<^verbatim>\<open>Plugin\<close> struct and through its package:
  the allocator, the API client behind \<^verbatim>\<open>handle\<close>, and the functions and the table
  that other files of the package and of the repository define. \<open>DeviceResourceNames\<close>
  is the key sequence in the order one \<^verbatim>\<open>range\<close> over the table visits it; Go fixes
  no order, and visits each key once.\<close>

record ('pod, 'nd, 'api) Plugin =
  allocator :: "('pod, 'nd) Allocator"
  handle_Patch :: "'api \<Rightarrow> 'pod \<Rightarrow> string \<Rightarrow> api_error option \<times> 'api"
  retryLimit :: nat
  PodRequestsAndLimits :: "'pod \<Rightarrow> ResourceList"
  DeviceResourceNames :: "DeviceType list"
  hasDeviceResource :: "ResourceList \<Rightarrow> DeviceType \<Rightarrow> bool"
  ValidateGPURequest :: "ResourceList \<Rightarrow> string + nat"
  ConvertGPUResource :: "ResourceList \<Rightarrow> nat \<Rightarrow> ResourceList"
  validateCommonDeviceRequest :: "ResourceList \<Rightarrow> DeviceType \<Rightarrow> string option"
  convertCommonDeviceResource :: "ResourceList \<Rightarrow> DeviceType \<Rightarrow> ResourceList"
  SetDeviceAllocations :: "'pod \<Rightarrow> DeviceAllocations \<Rightarrow> string + 'pod"
  GeneratePodPatch :: "'pod \<Rightarrow> 'pod \<Rightarrow> string + string"

text \<open>The mutable world: the contents of \<^verbatim>\<open>nodeDeviceCache\<close> (node name to the node's
  record), the store of attempt states with its allocation counter, the API server, and
  the trace.\<close>

record ('nd, 'api) world =
  nodeDeviceInfos :: "string \<rightharpoonup> 'nd"
  heap :: "ref \<rightharpoonup> preFilterState"
  nextRef :: ref
  apiserver :: 'api
  trace :: "event list"

definition emit :: "event \<Rightarrow> ('nd, 'api) world \<Rightarrow> ('nd, 'api) world" where
  "emit e w = w\<lparr>trace := trace w @ [e]\<rparr>"

subsection \<open>Normalization: PreFilter\<close>

text \<open>\<^verbatim>\<open>quotav1.Add\<close>: the keys of both lists, quantities added where both have the key.\<close>

definition quota_Add :: "ResourceList \<Rightarrow> ResourceList \<Rightarrow> ResourceList" where
  "quota_Add a b =
     (\<lambda>key. case a key of
               Some value \<Rightarrow> (case b key of Some other \<Rightarrow> Some (value + other) | None \<Rightarrow> Some value)
             | None \<Rightarrow> b key)"

text \<open>The body of \<^verbatim>\<open>for deviceType := range DeviceResourceNames\<close>, one pass of the
  switch on the local \<^verbatim>\<open>state\<close>; \<open>Inl\<close> is the early
  \<^verbatim>\<open>return framework.NewStatus(framework.Error, err.Error())\<close>. The
  \<^verbatim>\<open>default\<close> branch only logs a warning.\<close>

definition PreFilter_body ::
  "('pod, 'nd, 'api) Plugin \<Rightarrow> ResourceList \<Rightarrow> DeviceType \<Rightarrow> preFilterState
     \<Rightarrow> (Code \<times> string) + preFilterState" where
  "PreFilter_body p podRequest deviceType state =
     (if deviceType = GPU then
        (if \<not> hasDeviceResource p podRequest deviceType then Inr state
         else (case ValidateGPURequest p podRequest of
                 Inl err \<Rightarrow> Inl (Error, err)
               | Inr combination \<Rightarrow>
                   Inr (state\<lparr>convertedDeviceResource :=
                                quota_Add (convertedDeviceResource state)
                                  (ConvertGPUResource p podRequest combination),
                              skip := False\<rparr>)))
      else if deviceType = RDMA \<or> deviceType = FPGA then
        (if \<not> hasDeviceResource p podRequest deviceType then Inr state
         else (case validateCommonDeviceRequest p podRequest deviceType of
                 Some err \<Rightarrow> Inl (Error, err)
               | None \<Rightarrow>
                   Inr (state\<lparr>convertedDeviceResource :=
                                quota_Add (convertedDeviceResource state)
                                  (convertCommonDeviceResource p podRequest deviceType),
                              skip := False\<rparr>)))
      else Inr state)"

fun PreFilter_loop ::
  "('pod, 'nd, 'api) Plugin \<Rightarrow> ResourceList \<Rightarrow> DeviceType list \<Rightarrow> preFilterState
     \<Rightarrow> (Code \<times> string) + preFilterState" where
  "PreFilter_loop p podRequest [] state = Inr state"
| "PreFilter_loop p podRequest (deviceType # rest) state =
     (case PreFilter_body p podRequest deviceType state of
        Inl status \<Rightarrow> Inl status
      | Inr state' \<Rightarrow> PreFilter_loop p podRequest rest state')"

text \<open>\<^verbatim>\<open>PreFilter\<close>. The new state object is reachable only once
  \<^verbatim>\<open>cycleState.Write\<close> has stored its address, so it enters the store there.\<close>

definition PreFilter ::
  "('pod, 'nd, 'api) Plugin \<Rightarrow> ('nd, 'api) world \<Rightarrow> CycleState \<Rightarrow> 'pod
     \<Rightarrow> Status \<times> ('nd, 'api) world \<times> CycleState" where
  "PreFilter p w cycleState pod =
     (let state = \<lparr>skip = True, allocationResult = [], convertedDeviceResource = Map.empty\<rparr>;
          podRequest = PodRequestsAndLimits p pod
      in case PreFilter_loop p podRequest (DeviceResourceNames p) state of
           Inl status \<Rightarrow> (Some status, w, cycleState)
         | Inr state' \<Rightarrow>
             (None,
              w\<lparr>heap := (heap w)(nextRef w \<mapsto> state'), nextRef := Suc (nextRef w)\<rparr>,
              cycleState(stateKey \<mapsto> nextRef w)))"

text \<open>\<^verbatim>\<open>getPreFilterState\<close>: \<^verbatim>\<open>cycleState.Read\<close> fails when the key is absent, and the
  error becomes a status with code \<^verbatim>\<open>Error\<close>, the \<open>Inl\<close> here; it is the one
  result on which the callers' test \<^verbatim>\<open>!status.IsSuccess()\<close> holds. An address with
  no object behind it cannot arise in Go; the model answers it like the absent key.\<close>

definition getPreFilterState ::
  "('nd, 'api) world \<Rightarrow> CycleState \<Rightarrow> (Code \<times> string) + (ref \<times> preFilterState)" where
  "getPreFilterState w cycleState =
     (case cycleState stateKey of
        None \<Rightarrow> Inl (Error, ''not found'')
      | Some value \<Rightarrow>
          (case heap w value of
             None \<Rightarrow> Inl (Error, ''not found'')
           | Some state \<Rightarrow> Inr (value, state)))"

subsection \<open>Tentative check: Filter\<close>

text \<open>\<open>nodeInfo\<close> is what \<^verbatim>\<open>nodeInfo.Node()\<close> gives: \<open>None\<close> for \<^verbatim>\<open>nil\<close>, else the
  node's name. The deferred \<^verbatim>\<open>RUnlock\<close> runs on every return after \<^verbatim>\<open>RLock\<close>.\<close>

definition Filter ::
  "('pod, 'nd, 'api) Plugin \<Rightarrow> ('nd, 'api) world \<Rightarrow> CycleState \<Rightarrow> 'pod \<Rightarrow> string option
     \<Rightarrow> Status \<times> ('nd, 'api) world" where
  "Filter p w cycleState pod nodeInfo =
     (case getPreFilterState w cycleState of
        Inl status \<Rightarrow> (Some status, w)
      | Inr (sref, state) \<Rightarrow>
          if skip state then (None, w)
          else (case nodeInfo of
                  None \<Rightarrow> (NewStatus Error ''node not found'', w)
                | Some nodeName \<Rightarrow>
                    (let w1 = emit (EvGetNodeDevice nodeName) w
                     in case nodeDeviceInfos w1 nodeName of
                          None \<Rightarrow> (NewStatus UnschedulableAndUnresolvable ErrMissingDevice, w1)
                        | Some nodeDeviceInfo \<Rightarrow>
                            (let podRequest = convertedDeviceResource state;
                                 w2 = emit (EvRLock nodeName) w1;
                                 (allocateResult, err, nodeDevice') =
                                    Allocator_Allocate (allocator p) nodeName pod podRequest
                                      nodeDeviceInfo;
                                 w3 = (emit (EvAllocate nodeName) w2)
                                        \<lparr>nodeDeviceInfos :=
                                           (nodeDeviceInfos w2)(nodeName \<mapsto> nodeDevice')\<rparr>;
                                 w4 = emit (EvRUnlock nodeName) w3
                             in if length allocateResult \<noteq> 0 \<and> err = None then (None, w4)
                                else (NewStatus Unschedulable ErrInsufficientDevices, w4)))))"

subsection \<open>Commit and rollback: Reserve, Unreserve\<close>

definition Reserve ::
  "('pod, 'nd, 'api) Plugin \<Rightarrow> ('nd, 'api) world \<Rightarrow> CycleState \<Rightarrow> 'pod \<Rightarrow> string
     \<Rightarrow> Status \<times> ('nd, 'api) world" where
  "Reserve p w cycleState pod nodeName =
     (case getPreFilterState w cycleState of
        Inl status \<Rightarrow> (Some status, w)
      | Inr (sref, state) \<Rightarrow>
          if skip state then (None, w)
          else (let w1 = emit (EvGetNodeDevice nodeName) w
                in case nodeDeviceInfos w1 nodeName of
                     None \<Rightarrow> (NewStatus UnschedulableAndUnresolvable ErrMissingDevice, w1)
                   | Some nodeDeviceInfo \<Rightarrow>
                       (let podRequest = convertedDeviceResource state;
                            w2 = emit (EvLock nodeName) w1;
                            (allocateResult, err, nodeDevice') =
                               Allocator_Allocate (allocator p) nodeName pod podRequest
                                 nodeDeviceInfo;
                            w3 = (emit (EvAllocate nodeName) w2)
                                   \<lparr>nodeDeviceInfos :=
                                      (nodeDeviceInfos w2)(nodeName \<mapsto> nodeDevice')\<rparr>
                        in if err \<noteq> None \<or> length allocateResult = 0
                           then (NewStatus Unschedulable ErrInsufficientDevices,
                                 emit (EvUnlock nodeName) w3)
                           else (let w4 = (emit (EvReserve nodeName) w3)
                                            \<lparr>nodeDeviceInfos :=
                                               (nodeDeviceInfos w3)(nodeName \<mapsto>
                                                  Allocator_Reserve (allocator p) pod nodeDevice'
                                                    allocateResult)\<rparr>;
                                     w5 = w4\<lparr>heap := (heap w4)(sref \<mapsto>
                                                state\<lparr>allocationResult := allocateResult\<rparr>)\<rparr>
                                 in (None, emit (EvUnlock nodeName) w5)))))"

definition Unreserve ::
  "('pod, 'nd, 'api) Plugin \<Rightarrow> ('nd, 'api) world \<Rightarrow> CycleState \<Rightarrow> 'pod \<Rightarrow> string
     \<Rightarrow> ('nd, 'api) world" where
  "Unreserve p w cycleState pod nodeName =
     (case getPreFilterState w cycleState of
        Inl status \<Rightarrow> w
      | Inr (sref, state) \<Rightarrow>
          if skip state then w
          else (let w1 = emit (EvGetNodeDevice nodeName) w
                in case nodeDeviceInfos w1 nodeName of
                     None \<Rightarrow> w1
                   | Some nodeDeviceInfo \<Rightarrow>
                       (let w2 = emit (EvLock nodeName) w1;
                            w3 = (emit (EvUnreserve nodeName) w2)
                                   \<lparr>nodeDeviceInfos :=
                                      (nodeDeviceInfos w2)(nodeName \<mapsto>
                                         Allocator_Unreserve (allocator p) pod nodeDeviceInfo
                                           (allocationResult state))\<rparr>;
                            w4 = w3\<lparr>heap := (heap w3)(sref \<mapsto> state\<lparr>allocationResult := []\<rparr>)\<rparr>
                        in emit (EvUnlock nodeName) w4)))"

subsection \<open>Persistence: PreBind\<close>

text \<open>The errors the wrapper retries, as its name has them: a conflict, and a
  too-many-requests answer.\<close>

definition retriable :: "api_error \<Rightarrow> bool" where
  "retriable e = (case e of Conflict _ \<Rightarrow> True | TooManyRequests _ \<Rightarrow> True | OtherFailure _ \<Rightarrow> False)"

text \<open>Modelled from the spec: \<^verbatim>\<open>util.RetryOnConflictOrTooManyRequests\<close> is defined
  outside plugin.go. The spec asks for a bounded-retry wrapper around the write: the write
  is tried, tried again after a conflict while retries remain, and its last error is
  surfaced once they are used up. The first argument is the number of retries left after
  the current try; any other error ends the loop at once.\<close>

fun RetryOnConflictOrTooManyRequests ::
  "nat \<Rightarrow> ('s \<Rightarrow> api_error option \<times> 's) \<Rightarrow> 's \<Rightarrow> api_error option \<times> 's" where
  "RetryOnConflictOrTooManyRequests 0 fn s = fn s"
| "RetryOnConflictOrTooManyRequests (Suc n) fn s =
     (case fn s of
        (None, s') \<Rightarrow> (None, s')
      | (Some e, s') \<Rightarrow>
          if retriable e then RetryOnConflictOrTooManyRequests n fn s' else (Some e, s'))"

text \<open>The closure handed to the wrapper: one \<^verbatim>\<open>Patch\<close> call on the API client.\<close>

definition patchPod ::
  "('pod, 'nd, 'api) Plugin \<Rightarrow> 'pod \<Rightarrow> string \<Rightarrow> ('nd, 'api) world
     \<Rightarrow> api_error option \<times> ('nd, 'api) world" where
  "patchPod p pod patchBytes w =
     (let (podErr, api') = handle_Patch p (apiserver w) pod patchBytes
      in (podErr, (emit EvPatch w)\<lparr>apiserver := api'\<rparr>))"

text \<open>\<^verbatim>\<open>pod.DeepCopy()\<close> is the pod itself, as a value.\<close>

definition PreBind ::
  "('pod, 'nd, 'api) Plugin \<Rightarrow> ('nd, 'api) world \<Rightarrow> CycleState \<Rightarrow> 'pod \<Rightarrow> string
     \<Rightarrow> Status \<times> ('nd, 'api) world" where
  "PreBind p w cycleState pod nodeName =
     (case getPreFilterState w cycleState of
        Inl status \<Rightarrow> (Some status, w)
      | Inr (sref, state) \<Rightarrow>
          if skip state then (None, w)
          else (let allocResult = allocationResult state
                in case SetDeviceAllocations p pod allocResult of
                     Inl err \<Rightarrow> (NewStatus Error err, w)
                   | Inr newPod \<Rightarrow>
                       (case GeneratePodPatch p pod newPod of
                          Inl err \<Rightarrow> (NewStatus Error err, w)
                        | Inr patchBytes \<Rightarrow>
                            (case RetryOnConflictOrTooManyRequests (retryLimit p)
                                    (patchPod p pod patchBytes) w of
                               (Some err, w') \<Rightarrow> (NewStatus Error (err_Error err), w')
                             | (None, w') \<Rightarrow> (None, w')))))"

text \<open>Modelled from the spec: the host framework's sequencing of the phases is not part
  of plugin.go. The spec's state machine takes a reserved attempt either to Bound, when
  the persistence step succeeds, or through rollback to Unreserved: on a failure of the
  persistence step the coordinator invokes \<^verbatim>\<open>Unreserve\<close> before the attempt ends.\<close>

definition persistOrRollback ::
  "('pod, 'nd, 'api) Plugin \<Rightarrow> ('nd, 'api) world \<Rightarrow> CycleState \<Rightarrow> 'pod \<Rightarrow> string
     \<Rightarrow> Status \<times> ('nd, 'api) world" where
  "persistOrRollback p w cycleState pod nodeName =
     (case PreBind p w cycleState pod nodeName of
        (None, w') \<Rightarrow> (None, w')
      | (Some failure, w') \<Rightarrow> (Some failure, Unreserve p w' cycleState pod nodeName))"

text \<open>The condition under which the wrapper runs out of retries: starting from API
  server state \<open>api\<close>, each of the next \<open>k\<close> writes is refused with an error that the
  wrapper retries.\<close>

fun refused ::
  "('pod, 'nd, 'api) Plugin \<Rightarrow> 'pod \<Rightarrow> string \<Rightarrow> nat \<Rightarrow> 'api \<Rightarrow> bool" where
  "refused p pod patchBytes 0 api = True"
| "refused p pod patchBytes (Suc k) api =
     (case handle_Patch p api pod patchBytes of
        (None, api') \<Rightarrow> False
      | (Some e, api') \<Rightarrow> retriable e \<and> refused p pod patchBytes k api')"

subsection \<open>A concrete instance\<close>

text \<open>A small instance of the collaborators, on which the theorems below are run at
  concrete inputs; none of them depends on it. Its node record is a list of device units
  with the fields the spec gives a unit (type, minor, total and used capacity, health).
  Its allocator stands in for the pluggable one: \<^verbatim>\<open>Allocate\<close> takes, per device type
  asked for, the first healthy unit whose free capacity covers the ask and leaves the
  record alone, \<^verbatim>\<open>Reserve\<close> adds the allocated amounts to the used capacity and
  \<^verbatim>\<open>Unreserve\<close> subtracts them.\<close>

record DeviceUnit =
  deviceType :: DeviceType
  minorID :: int
  totalCapacity :: int
  usedCapacity :: int
  healthy :: bool

type_synonym NodeDeviceRecord = "DeviceUnit list"

fun exResourceName :: "DeviceType \<Rightarrow> string" where
  "exResourceName GPU = ''koordinator.sh/gpu-core''"
| "exResourceName RDMA = ''koordinator.sh/rdma''"
| "exResourceName FPGA = ''koordinator.sh/fpga''"
| "exResourceName (OtherDevice other) = other"

fun exFirstFit :: "DeviceType \<Rightarrow> int \<Rightarrow> NodeDeviceRecord \<Rightarrow> int option" where
  "exFirstFit t need [] = None"
| "exFirstFit t need (u # us) =
     (if deviceType u = t \<and> healthy u \<and> need \<le> totalCapacity u - usedCapacity u
      then Some (minorID u) else exFirstFit t need us)"

fun exAllocateTypes ::
  "ResourceList \<Rightarrow> NodeDeviceRecord \<Rightarrow> DeviceType list \<Rightarrow> DeviceAllocations option" where
  "exAllocateTypes request nd [] = Some []"
| "exAllocateTypes request nd (t # ts) =
     (case request (exResourceName t) of
        None \<Rightarrow> exAllocateTypes request nd ts
      | Some need \<Rightarrow>
          (case exFirstFit t need nd of
             None \<Rightarrow> None
           | Some minor \<Rightarrow>
               (case exAllocateTypes request nd ts of
                  None \<Rightarrow> None
                | Some others \<Rightarrow> Some ((t, [(minor, need)]) # others))))"

definition exAllocate ::
  "string \<Rightarrow> 'pod \<Rightarrow> ResourceList \<Rightarrow> NodeDeviceRecord
     \<Rightarrow> DeviceAllocations \<times> string option \<times> NodeDeviceRecord" where
  "exAllocate nodeName pod request nd =
     (case exAllocateTypes request nd [GPU, RDMA, FPGA] of
        None \<Rightarrow> ([], Some ''Insufficient Devices'', nd)
      | Some result \<Rightarrow> (result, None, nd))"

definition exAdjust :: "DeviceType \<Rightarrow> int \<Rightarrow> int \<Rightarrow> NodeDeviceRecord \<Rightarrow> NodeDeviceRecord" where
  "exAdjust t minor delta nd =
     map (\<lambda>u. if deviceType u = t \<and> minorID u = minor
              then u\<lparr>usedCapacity := usedCapacity u + delta\<rparr> else u) nd"

fun exApply :: "int \<Rightarrow> DeviceAllocations \<Rightarrow> NodeDeviceRecord \<Rightarrow> NodeDeviceRecord" where
  "exApply sign [] nd = nd"
| "exApply sign ((t, []) # rest) nd = exApply sign rest nd"
| "exApply sign ((t, (minor, amount) # pairs) # rest) nd =
     exApply sign ((t, pairs) # rest) (exAdjust t minor (sign * amount) nd)"

definition exAllocator :: "('pod, NodeDeviceRecord) Allocator" where
  "exAllocator =
     \<lparr>Allocator_Allocate = exAllocate,
      Allocator_Reserve = (\<lambda>pod nd result. exApply 1 result nd),
      Allocator_Unreserve = (\<lambda>pod nd result. exApply (- 1) result nd)\<rparr>"

text \<open>The API server of the instance is the number of writes it will still refuse with a
  conflict.\<close>

definition exPatch :: "nat \<Rightarrow> 'pod \<Rightarrow> string \<Rightarrow> api_error option \<times> nat" where
  "exPatch refusals pod patchBytes =
     (if refusals = 0 then (None, 0) else (Some (Conflict ''conflict''), refusals - 1))"

definition exHas :: "ResourceList \<Rightarrow> DeviceType \<Rightarrow> bool" where
  "exHas request t = (request (exResourceName t) \<noteq> None)"

definition exValidateGPU :: "ResourceList \<Rightarrow> string + nat" where
  "exValidateGPU request =
     (case request ''koordinator.sh/gpu-core'' of
        None \<Rightarrow> Inl ''request is not valid''
      | Some q \<Rightarrow> if 0 < q then Inr 1 else Inl ''request is not valid'')"

definition exValidateCommon :: "ResourceList \<Rightarrow> DeviceType \<Rightarrow> string option" where
  "exValidateCommon request t =
     (case request (exResourceName t) of
        None \<Rightarrow> Some ''invalid quantity''
      | Some q \<Rightarrow> if 0 \<le> q then None else Some ''invalid quantity'')"

definition exConvert :: "ResourceList \<Rightarrow> DeviceType \<Rightarrow> ResourceList" where
  "exConvert request t =
     (case request (exResourceName t) of
        None \<Rightarrow> Map.empty
      | Some q \<Rightarrow> [exResourceName t \<mapsto> q])"

text \<open>A pod of the instance is its summed resource ask.\<close>

definition exPlugin :: "DeviceType list \<Rightarrow> ((string \<times> int) list, NodeDeviceRecord, nat) Plugin" where
  "exPlugin order =
     \<lparr>allocator = exAllocator,
      handle_Patch = exPatch,
      retryLimit = 3,
      PodRequestsAndLimits = map_of,
      DeviceResourceNames = order,
      hasDeviceResource = exHas,
      ValidateGPURequest = exValidateGPU,
      ConvertGPUResource = (\<lambda>request combination. exConvert request GPU),
      validateCommonDeviceRequest = exValidateCommon,
      convertCommonDeviceResource = exConvert,
      SetDeviceAllocations = (\<lambda>pod result. Inr pod),
      GeneratePodPatch = (\<lambda>pod newPod. Inr ''{}'')\<rparr>"

definition exNode :: NodeDeviceRecord where
  "exNode = [\<lparr>deviceType = GPU, minorID = 0, totalCapacity = 100, usedCapacity = 0,
              healthy = True\<rparr>]"

definition exWorld :: "nat \<Rightarrow> (NodeDeviceRecord, nat) world" where
  "exWorld refusals =
     \<lparr>nodeDeviceInfos = [''node-1'' \<mapsto> exNode],
      heap = Map.empty,
      nextRef = 0,
      apiserver = refusals,
      trace = []\<rparr>"

definition exState :: "bool \<Rightarrow> preFilterState" where
  "exState s =
     \<lparr>skip = s, allocationResult = [],
      convertedDeviceResource = (if s then Map.empty else [''koordinator.sh/gpu-core'' \<mapsto> 50])\<rparr>"

text \<open>The world and cycle state after normalization of a pod: the state object at
  address 0, stored under the plugin's key.\<close>

definition exReady :: "bool \<Rightarrow> nat \<Rightarrow> (NodeDeviceRecord, nat) world" where
  "exReady s refusals = (exWorld refusals)\<lparr>heap := [0 \<mapsto> exState s], nextRef := 1\<rparr>"

text \<open>The same world with the node's only GPU fully used.\<close>

definition exFull :: "bool \<Rightarrow> nat \<Rightarrow> (NodeDeviceRecord, nat) world" where
  "exFull s refusals =
     (exReady s refusals)
       \<lparr>nodeDeviceInfos :=
          [''node-1'' \<mapsto> [\<lparr>deviceType = GPU, minorID = 0, totalCapacity = 100,
                           usedCapacity = 100, healthy = True\<rparr>]]\<rparr>"

definition exCycle :: CycleState where
  "exCycle = [stateKey \<mapsto> 0]"

section \<open>Normalization does not depend on the iteration order\<close>

lemma quota_Add_swap:
  "quota_Add (quota_Add x a) b = quota_Add (quota_Add x b) a"
  by (rule ext) (simp add: quota_Add_def split: option.splits)

text \<open>Two passes of the switch that both succeed can be taken in either order.\<close>

lemma body_commute:
  assumes "PreFilter_body p req a st = Inr s1" and "PreFilter_body p req b s1 = Inr s2"
  shows "\<exists>s1'. PreFilter_body p req b st = Inr s1' \<and> PreFilter_body p req a s1' = Inr s2"
  using assms
  by (auto simp: PreFilter_body_def quota_Add_swap split: if_splits sum.splits option.splits)

lemma loop_insert:
  assumes "PreFilter_body p req a st = Inr s1"
    and "PreFilter_loop p req (ys @ zs) s1 = Inr s"
  shows "PreFilter_loop p req (ys @ a # zs) st = Inr s"
  using assms
proof (induction ys arbitrary: st s1)
  case Nil
  then show ?case by simp
next
  case (Cons y ys)
  from Cons.prems(2) obtain s2 where y: "PreFilter_body p req y s1 = Inr s2"
    and rest: "PreFilter_loop p req (ys @ zs) s2 = Inr s"
    by (auto split: sum.splits)
  from body_commute[OF Cons.prems(1) y] obtain s1' where
    y': "PreFilter_body p req y st = Inr s1'" and a': "PreFilter_body p req a s1' = Inr s2"
    by blast
  from Cons.IH[OF a' rest] have "PreFilter_loop p req (ys @ a # zs) s1' = Inr s" .
  with y' show ?case by simp
qed

lemma loop_permute:
  assumes "mset xs = mset ys" and "PreFilter_loop p req xs st = Inr s"
  shows "PreFilter_loop p req ys st = Inr s"
  using assms
proof (induction xs arbitrary: ys st)
  case Nil
  then show ?case by simp
next
  case (Cons a xs)
  from Cons.prems(2) obtain s1 where a: "PreFilter_body p req a st = Inr s1"
    and rest: "PreFilter_loop p req xs s1 = Inr s"
    by (auto split: sum.splits)
  have "a \<in> set ys" using Cons.prems(1) by (metis list.set_intros(1) mset_eq_setD)
  then obtain us vs where ys: "ys = us @ a # vs" by (auto dest: split_list)
  with Cons.prems(1) have "mset xs = mset (us @ vs)" by simp
  from Cons.IH[OF this rest] have "PreFilter_loop p req (us @ vs) s1 = Inr s" .
  from loop_insert[OF a this] show ?case by (simp add: ys)
qed

lemma loop_permute_eq_or_fail:
  assumes "mset xs = mset ys"
  shows "(\<exists>s. PreFilter_loop p req xs st = Inr s \<and> PreFilter_loop p req ys st = Inr s)
       \<or> (isl (PreFilter_loop p req xs st) \<and> isl (PreFilter_loop p req ys st))"
proof (cases "PreFilter_loop p req xs st")
  case (Inr s)
  with loop_permute[OF assms Inr] show ?thesis by simp
next
  case xs_fails: (Inl e)
  show ?thesis
  proof (cases "PreFilter_loop p req ys st")
    case (Inr s)
    from loop_permute[OF assms[symmetric] Inr] xs_fails show ?thesis by simp
  next
    case (Inl e')
    with xs_fails show ?thesis by simp
  qed
qed

lemma body_order_irrelevant:
  "PreFilter_body (p\<lparr>DeviceResourceNames := order\<rparr>) req t st = PreFilter_body p req t st"
  by (simp add: PreFilter_body_def split: sum.splits option.splits)

lemma loop_order_irrelevant:
  "PreFilter_loop (p\<lparr>DeviceResourceNames := order\<rparr>) req ts st = PreFilter_loop p req ts st"
  by (induction ts arbitrary: st) (simp_all add: body_order_irrelevant split: sum.splits)

lemma body_error_code: "PreFilter_body p req t st = Inl e \<Longrightarrow> fst e = Error"
  by (auto simp: PreFilter_body_def split: if_splits sum.splits option.splits)

lemma loop_error_code: "PreFilter_loop p req ts st = Inl e \<Longrightarrow> fst e = Error"
  by (induction ts arbitrary: st) (auto split: sum.splits dest: body_error_code)

lemma PreFilter_ok:
  "PreFilter_loop p (PodRequestsAndLimits p pod) (DeviceResourceNames p)
      \<lparr>skip = True, allocationResult = [], convertedDeviceResource = Map.empty\<rparr> = Inr st
   \<Longrightarrow> PreFilter p w cs pod =
        (None, w\<lparr>heap := (heap w)(nextRef w \<mapsto> st), nextRef := Suc (nextRef w)\<rparr>,
         cs(stateKey \<mapsto> nextRef w))"
  by (simp add: PreFilter_def)

lemma PreFilter_err:
  "PreFilter_loop p (PodRequestsAndLimits p pod) (DeviceResourceNames p)
      \<lparr>skip = True, allocationResult = [], convertedDeviceResource = Map.empty\<rparr> = Inl e
   \<Longrightarrow> PreFilter p w cs pod = (NewStatus Error (snd e), w, cs)"
  by (frule loop_error_code) (simp add: PreFilter_def NewStatus_def prod_eq_iff)

text \<open>
  Claim C7. Normalization is deterministic. Take two pods with equal resource asks and
  two visiting orders \<open>o1\<close>, \<open>o2\<close> of the same table (each key once, the same keys).
  Then either both runs of \<^verbatim>\<open>PreFilter\<close> succeed and write one and the same state
  \<open>st\<close>, hence the same skip flag and the same converted resource map, or both return
  an error status and write no state.
\<close>

theorem PreFilter_order_independent:
  assumes "distinct o1" and "distinct o2" and "set o1 = set o2"
    and "PodRequestsAndLimits p pod1 = PodRequestsAndLimits p pod2"
  shows "(\<exists>st. PreFilter (p\<lparr>DeviceResourceNames := o1\<rparr>) w cs pod1 =
               (None, w\<lparr>heap := (heap w)(nextRef w \<mapsto> st), nextRef := Suc (nextRef w)\<rparr>,
                cs(stateKey \<mapsto> nextRef w))
            \<and> PreFilter (p\<lparr>DeviceResourceNames := o2\<rparr>) w cs pod2 =
               (None, w\<lparr>heap := (heap w)(nextRef w \<mapsto> st), nextRef := Suc (nextRef w)\<rparr>,
                cs(stateKey \<mapsto> nextRef w)))
       \<or> (\<exists>m1 m2. PreFilter (p\<lparr>DeviceResourceNames := o1\<rparr>) w cs pod1 = (NewStatus Error m1, w, cs)
            \<and> PreFilter (p\<lparr>DeviceResourceNames := o2\<rparr>) w cs pod2 = (NewStatus Error m2, w, cs))"
proof -
  let ?init = "\<lparr>skip = True, allocationResult = [], convertedDeviceResource = Map.empty\<rparr>"
  let ?req = "PodRequestsAndLimits p pod1"
  let ?p1 = "p\<lparr>DeviceResourceNames := o1\<rparr>" and ?p2 = "p\<lparr>DeviceResourceNames := o2\<rparr>"
  have perm: "mset o1 = mset o2"
    using assms(1-3) by (simp add: set_eq_iff_mset_eq_distinct)
  have l1: "PreFilter_loop ?p1 (PodRequestsAndLimits ?p1 pod1) (DeviceResourceNames ?p1) ?init
              = PreFilter_loop p ?req o1 ?init"
    by (simp add: loop_order_irrelevant)
  have l2: "PreFilter_loop ?p2 (PodRequestsAndLimits ?p2 pod2) (DeviceResourceNames ?p2) ?init
              = PreFilter_loop p ?req o2 ?init"
    using assms(4) by (simp add: loop_order_irrelevant)
  from loop_permute_eq_or_fail[OF perm, of p ?req ?init]
  show ?thesis
  proof
    assume "\<exists>s. PreFilter_loop p ?req o1 ?init = Inr s \<and> PreFilter_loop p ?req o2 ?init = Inr s"
    then obtain s where "PreFilter_loop p ?req o1 ?init = Inr s"
      and "PreFilter_loop p ?req o2 ?init = Inr s" by blast
    with l1 l2 have "PreFilter ?p1 w cs pod1 =
               (None, w\<lparr>heap := (heap w)(nextRef w \<mapsto> s), nextRef := Suc (nextRef w)\<rparr>,
                cs(stateKey \<mapsto> nextRef w))"
      and "PreFilter ?p2 w cs pod2 =
               (None, w\<lparr>heap := (heap w)(nextRef w \<mapsto> s), nextRef := Suc (nextRef w)\<rparr>,
                cs(stateKey \<mapsto> nextRef w))"
      by (simp_all only: PreFilter_ok)
    then show ?thesis by blast
  next
    assume "isl (PreFilter_loop p ?req o1 ?init) \<and> isl (PreFilter_loop p ?req o2 ?init)"
    then obtain e1 e2 where "PreFilter_loop p ?req o1 ?init = Inl e1"
      and "PreFilter_loop p ?req o2 ?init = Inl e2"
      by (auto simp: isl_def)
    with l1 l2 have "PreFilter ?p1 w cs pod1 = (NewStatus Error (snd e1), w, cs)"
      and "PreFilter ?p2 w cs pod2 = (NewStatus Error (snd e2), w, cs)"
      by (simp_all only: PreFilter_err)
    then show ?thesis by blast
  qed
qed

theorem PreFilter_order_independent_witness:
  "distinct [GPU, RDMA, FPGA] \<and> distinct [FPGA, RDMA, GPU]
   \<and> set [GPU, RDMA, FPGA] = set [FPGA, RDMA, GPU]
   \<and> fst (PreFilter ((exPlugin [])\<lparr>DeviceResourceNames := [GPU, RDMA, FPGA]\<rparr>) (exWorld 0) Map.empty
            [(''koordinator.sh/gpu-core'', 50), (''koordinator.sh/rdma'', 1)]) = None
   \<and> PreFilter ((exPlugin [])\<lparr>DeviceResourceNames := [GPU, RDMA, FPGA]\<rparr>) (exWorld 0) Map.empty
        [(''koordinator.sh/gpu-core'', 50), (''koordinator.sh/rdma'', 1)]
     = PreFilter ((exPlugin [])\<lparr>DeviceResourceNames := [FPGA, RDMA, GPU]\<rparr>) (exWorld 0) Map.empty
        [(''koordinator.sh/rdma'', 1), (''koordinator.sh/gpu-core'', 50)]"
proof -
  let ?pod1 = "[(''koordinator.sh/gpu-core'', 50), (''koordinator.sh/rdma'', 1 :: int)]"
  let ?pod2 = "[(''koordinator.sh/rdma'', 1), (''koordinator.sh/gpu-core'', 50 :: int)]"
  have d1: "distinct [GPU, RDMA, FPGA]" by simp
  have d2: "distinct [FPGA, RDMA, GPU]" by simp
  have s: "set [GPU, RDMA, FPGA] = set [FPGA, RDMA, GPU]" by auto
  have r: "PodRequestsAndLimits (exPlugin []) ?pod1 = PodRequestsAndLimits (exPlugin []) ?pod2"
    by (rule ext) (simp add: exPlugin_def)
  have ok: "fst (PreFilter ((exPlugin [])\<lparr>DeviceResourceNames := [GPU, RDMA, FPGA]\<rparr>) (exWorld 0)
                   Map.empty ?pod1) = None"
    by (simp add: Let_def PreFilter_def PreFilter_body_def exPlugin_def exHas_def exValidateGPU_def
        exValidateCommon_def)
  from PreFilter_order_independent[OF d1 d2 s r, of "exWorld 0" Map.empty] ok
  show ?thesis by (auto simp: NewStatus_def)
qed

section \<open>What each phase does\<close>

lemma getPreFilterState_Inr:
  "getPreFilterState w cs = Inr (sref, st) \<longleftrightarrow> cs stateKey = Some sref \<and> heap w sref = Some st"
  by (auto simp: getPreFilterState_def split: option.splits)

lemma Filter_skip:
  "getPreFilterState w cs = Inr (sref, st) \<Longrightarrow> skip st \<Longrightarrow> Filter p w cs pod nodeInfo = (None, w)"
  by (simp add: Filter_def)

lemma Reserve_skip:
  "getPreFilterState w cs = Inr (sref, st) \<Longrightarrow> skip st \<Longrightarrow> Reserve p w cs pod n = (None, w)"
  by (simp add: Reserve_def)

lemma Unreserve_skip:
  "getPreFilterState w cs = Inr (sref, st) \<Longrightarrow> skip st \<Longrightarrow> Unreserve p w cs pod n = w"
  by (simp add: Unreserve_def)

lemma PreBind_skip:
  "getPreFilterState w cs = Inr (sref, st) \<Longrightarrow> skip st \<Longrightarrow> PreBind p w cs pod n = (None, w)"
  by (simp add: PreBind_def)

lemma Filter_missing:
  "getPreFilterState w cs = Inr (sref, st) \<Longrightarrow> \<not> skip st \<Longrightarrow> nodeDeviceInfos w n = None \<Longrightarrow>
   Filter p w cs pod (Some n) =
     (NewStatus UnschedulableAndUnresolvable ErrMissingDevice, w\<lparr>trace := trace w @ [EvGetNodeDevice n]\<rparr>)"
  by (simp add: Filter_def emit_def)

lemma Reserve_missing:
  "getPreFilterState w cs = Inr (sref, st) \<Longrightarrow> \<not> skip st \<Longrightarrow> nodeDeviceInfos w n = None \<Longrightarrow>
   Reserve p w cs pod n =
     (NewStatus UnschedulableAndUnresolvable ErrMissingDevice, w\<lparr>trace := trace w @ [EvGetNodeDevice n]\<rparr>)"
  by (simp add: Reserve_def emit_def)

lemma Unreserve_missing:
  "getPreFilterState w cs = Inr (sref, st) \<Longrightarrow> \<not> skip st \<Longrightarrow> nodeDeviceInfos w n = None \<Longrightarrow>
   Unreserve p w cs pod n = w\<lparr>trace := trace w @ [EvGetNodeDevice n]\<rparr>"
  by (simp add: Unreserve_def emit_def)

lemma Reserve_run:
  assumes "getPreFilterState w cs = Inr (sref, st)" and "\<not> skip st"
    and "nodeDeviceInfos w n = Some nd"
    and "Allocator_Allocate (allocator p) n pod (convertedDeviceResource st) nd = (r, err, nd')"
  shows "Reserve p w cs pod n =
     (if err = None \<and> r \<noteq> [] then
        (None, w\<lparr>nodeDeviceInfos := (nodeDeviceInfos w)(n \<mapsto> Allocator_Reserve (allocator p) pod nd' r),
                 heap := (heap w)(sref \<mapsto> st\<lparr>allocationResult := r\<rparr>),
                 trace := trace w @ [EvGetNodeDevice n, EvLock n, EvAllocate n, EvReserve n, EvUnlock n]\<rparr>)
      else (NewStatus Unschedulable ErrInsufficientDevices,
            w\<lparr>nodeDeviceInfos := (nodeDeviceInfos w)(n \<mapsto> nd'),
              trace := trace w @ [EvGetNodeDevice n, EvLock n, EvAllocate n, EvUnlock n]\<rparr>))"
  using assms by (simp add: Reserve_def emit_def)

lemma Filter_run:
  assumes "getPreFilterState w cs = Inr (sref, st)" and "\<not> skip st"
    and "nodeDeviceInfos w n = Some nd"
    and "Allocator_Allocate (allocator p) n pod (convertedDeviceResource st) nd = (r, err, nd')"
  shows "Filter p w cs pod (Some n) =
     (if r \<noteq> [] \<and> err = None then None else NewStatus Unschedulable ErrInsufficientDevices,
      w\<lparr>nodeDeviceInfos := (nodeDeviceInfos w)(n \<mapsto> nd'),
        trace := trace w @ [EvGetNodeDevice n, EvRLock n, EvAllocate n, EvRUnlock n]\<rparr>)"
  using assms by (auto simp: Filter_def emit_def Let_def)

lemma Unreserve_run:
  assumes "getPreFilterState w cs = Inr (sref, st)" and "\<not> skip st"
    and "nodeDeviceInfos w n = Some nd"
  shows "Unreserve p w cs pod n =
     w\<lparr>nodeDeviceInfos := (nodeDeviceInfos w)(n \<mapsto>
          Allocator_Unreserve (allocator p) pod nd (allocationResult st)),
       heap := (heap w)(sref \<mapsto> st\<lparr>allocationResult := []\<rparr>),
       trace := trace w @ [EvGetNodeDevice n, EvLock n, EvUnreserve n, EvUnlock n]\<rparr>"
  using assms by (simp add: Unreserve_def emit_def)

lemma patchPod_frame:
  "patchPod p pod b w = (e, w') \<Longrightarrow>
   nodeDeviceInfos w' = nodeDeviceInfos w \<and> heap w' = heap w \<and> nextRef w' = nextRef w
   \<and> trace w' = trace w @ [EvPatch]"
  by (auto simp: patchPod_def emit_def split: prod.splits)

lemma retry_frame:
  "RetryOnConflictOrTooManyRequests k (patchPod p pod b) w = (e, w') \<Longrightarrow>
   nodeDeviceInfos w' = nodeDeviceInfos w \<and> heap w' = heap w \<and> nextRef w' = nextRef w
   \<and> (\<exists>j. 1 \<le> j \<and> j \<le> Suc k \<and> trace w' = trace w @ replicate j EvPatch)"
proof (induction k arbitrary: w)
  case 0
  then have "patchPod p pod b w = (e, w')" by simp
  from patchPod_frame[OF this] show ?case by (auto intro: exI[of _ 1])
next
  case (Suc k)
  obtain e1 w1 where first: "patchPod p pod b w = (e1, w1)" by (cases "patchPod p pod b w")
  note fr = patchPod_frame[OF first]
  show ?case
  proof (cases "\<exists>x. e1 = Some x \<and> retriable x")
    case False
    with Suc.prems first have "w' = w1" by (auto split: option.splits)
    with fr show ?thesis by (auto intro: exI[of _ 1])
  next
    case True
    with Suc.prems first have "RetryOnConflictOrTooManyRequests k (patchPod p pod b) w1 = (e, w')"
      by auto
    from Suc.IH[OF this] obtain j where j: "1 \<le> j" "j \<le> Suc k"
      and tr: "trace w' = trace w1 @ replicate j EvPatch"
      and rest: "nodeDeviceInfos w' = nodeDeviceInfos w1" "heap w' = heap w1" "nextRef w' = nextRef w1"
      by blast
    from tr fr have "trace w' = trace w @ replicate (Suc j) EvPatch"
      by (simp add: replicate_app_Cons_same)
    with j rest fr show ?thesis by (intro conjI exI[of _ "Suc j"]) simp_all
  qed
qed

lemma retry_exhausted:
  "refused p pod b (Suc k) (apiserver w) \<Longrightarrow>
   \<exists>e w'. RetryOnConflictOrTooManyRequests k (patchPod p pod b) w = (Some e, w') \<and> retriable e
         \<and> trace w' = trace w @ replicate (Suc k) EvPatch"
proof (induction k arbitrary: w)
  case 0
  then show ?case
    by (auto simp: patchPod_def emit_def split: prod.splits option.splits)
next
  case (Suc k)
  from Suc.prems obtain e1 a1 where hp: "handle_Patch p (apiserver w) pod b = (Some e1, a1)"
    and r1: "retriable e1" and rest: "refused p pod b (Suc k) a1"
    by (auto split: prod.splits option.splits)
  let ?w1 = "(emit EvPatch w)\<lparr>apiserver := a1\<rparr>"
  have first: "patchPod p pod b w = (Some e1, ?w1)" using hp by (simp add: patchPod_def)
  have "refused p pod b (Suc k) (apiserver ?w1)" using rest by simp
  from Suc.IH[OF this] obtain e w' where
    run: "RetryOnConflictOrTooManyRequests k (patchPod p pod b) ?w1 = (Some e, w')"
    and re: "retriable e" and tr: "trace w' = trace ?w1 @ replicate (Suc k) EvPatch" by blast
  have "RetryOnConflictOrTooManyRequests (Suc k) (patchPod p pod b) w = (Some e, w')"
    using first r1 run by simp
  moreover have "trace w' = trace w @ replicate (Suc (Suc k)) EvPatch"
    using tr by (simp add: emit_def replicate_app_Cons_same)
  ultimately show ?case using re by blast
qed

lemma PreBind_run:
  assumes "getPreFilterState w cs = Inr (sref, st)" and "\<not> skip st"
    and "SetDeviceAllocations p pod (allocationResult st) = Inr newPod"
    and "GeneratePodPatch p pod newPod = Inr patchBytes"
  shows "PreBind p w cs pod n =
      (case RetryOnConflictOrTooManyRequests (retryLimit p) (patchPod p pod patchBytes) w of
         (Some err, w') \<Rightarrow> (NewStatus Error (err_Error err), w')
       | (None, w') \<Rightarrow> (None, w'))"
  using assms by (simp add: PreBind_def)

lemma PreBind_frame:
  assumes "PreBind p w cs pod n = (status, w')"
  shows "nodeDeviceInfos w' = nodeDeviceInfos w \<and> heap w' = heap w \<and> nextRef w' = nextRef w
   \<and> (\<exists>j. j \<le> Suc (retryLimit p) \<and> trace w' = trace w @ replicate j EvPatch)"
proof (cases "\<exists>sref st newPod patchBytes. getPreFilterState w cs = Inr (sref, st) \<and> \<not> skip st
    \<and> SetDeviceAllocations p pod (allocationResult st) = Inr newPod
    \<and> GeneratePodPatch p pod newPod = Inr patchBytes")
  case True
  then obtain sref st newPod patchBytes where h: "getPreFilterState w cs = Inr (sref, st)" "\<not> skip st"
    "SetDeviceAllocations p pod (allocationResult st) = Inr newPod"
    "GeneratePodPatch p pod newPod = Inr patchBytes" by blast
  obtain e w'' where run: "RetryOnConflictOrTooManyRequests (retryLimit p) (patchPod p pod patchBytes) w = (e, w'')"
    by (cases "RetryOnConflictOrTooManyRequests (retryLimit p) (patchPod p pod patchBytes) w")
  with assms PreBind_run[OF h, of n] have "w' = w''" by (auto split: option.splits)
  with retry_frame[OF run] show ?thesis by auto
next
  case False
  with assms have "w' = w"
    by (auto simp: PreBind_def split: sum.splits if_splits)
  then show ?thesis by (auto intro: exI[of _ 0])
qed

section \<open>The instance at concrete inputs\<close>

lemma ex_get: "getPreFilterState (exReady s k) exCycle = Inr (0, exState s)"
  by (simp add: getPreFilterState_def exReady_def exCycle_def exWorld_def)

lemma ex_node: "nodeDeviceInfos (exReady s k) ''node-1'' = Some exNode"
  by (simp add: exReady_def exWorld_def)

lemma ex_no_node: "nodeDeviceInfos (exReady s k) ''node-2'' = None"
  by (simp add: exReady_def exWorld_def)

lemma ex_not_skip: "\<not> skip (exState False)"
  by (simp add: exState_def)

lemma ex_alloc:
  "Allocator_Allocate (allocator (exPlugin order)) ''node-1'' pod
     (convertedDeviceResource (exState False)) exNode = ([(GPU, [(0, 50)])], None, exNode)"
  by (simp add: exPlugin_def exAllocator_def exAllocate_def exState_def exNode_def)

text \<open>A node whose only GPU is fully used.\<close>

lemma ex_alloc_full:
  "Allocator_Allocate (allocator (exPlugin order)) ''node-1'' pod
     (convertedDeviceResource (exState False))
     [\<lparr>deviceType = GPU, minorID = 0, totalCapacity = 100, usedCapacity = 100, healthy = True\<rparr>]
   = ([], Some ''Insufficient Devices'',
      [\<lparr>deviceType = GPU, minorID = 0, totalCapacity = 100, usedCapacity = 100, healthy = True\<rparr>])"
  by (simp add: exPlugin_def exAllocator_def exAllocate_def exState_def)

section \<open>Reserve, the missing record, and Unreserve without a reservation\<close>

text \<open>
  Claim C1. For a state that is not in skip and a node that has a record, \<^verbatim>\<open>Reserve\<close>
  takes the node's exclusive lock, runs \<^verbatim>\<open>Allocate\<close> on the record as the cache
  holds it now, and only when that returns no error and a non-empty result does it call
  the allocator's \<^verbatim>\<open>Reserve\<close> and store the result in the attempt state. Otherwise
  it returns Unschedulable with the reason \<^verbatim>\<open>Insufficient Devices\<close>, calls no
  \<^verbatim>\<open>Reserve\<close> on the allocator and leaves the attempt state as it was. The lock is
  released on both paths.
\<close>

theorem Reserve_revalidates_under_lock:
  assumes "getPreFilterState w cs = Inr (sref, st)" and "\<not> skip st"
    and "nodeDeviceInfos w n = Some nd"
    and "Allocator_Allocate (allocator p) n pod (convertedDeviceResource st) nd = (r, err, nd')"
  shows "Reserve p w cs pod n =
     (if err = None \<and> r \<noteq> [] then
        (None, w\<lparr>nodeDeviceInfos := (nodeDeviceInfos w)(n \<mapsto> Allocator_Reserve (allocator p) pod nd' r),
                 heap := (heap w)(sref \<mapsto> st\<lparr>allocationResult := r\<rparr>),
                 trace := trace w @ [EvGetNodeDevice n, EvLock n, EvAllocate n, EvReserve n, EvUnlock n]\<rparr>)
      else (NewStatus Unschedulable ErrInsufficientDevices,
            w\<lparr>nodeDeviceInfos := (nodeDeviceInfos w)(n \<mapsto> nd'),
              trace := trace w @ [EvGetNodeDevice n, EvLock n, EvAllocate n, EvUnlock n]\<rparr>))"
  using assms by (rule Reserve_run)

theorem Reserve_revalidates_under_lock_witness:
  "Reserve (exPlugin [GPU, RDMA, FPGA]) (exReady False 0) exCycle [] ''node-1''
     = (None,
        (exReady False 0)
          \<lparr>nodeDeviceInfos :=
             [''node-1'' \<mapsto> [\<lparr>deviceType = GPU, minorID = 0, totalCapacity = 100,
                              usedCapacity = 50, healthy = True\<rparr>]],
           heap := [0 \<mapsto> (exState False)\<lparr>allocationResult := [(GPU, [(0, 50)])]\<rparr>],
           trace := [EvGetNodeDevice ''node-1'', EvLock ''node-1'', EvAllocate ''node-1'',
                     EvReserve ''node-1'', EvUnlock ''node-1'']\<rparr>)
   \<and> Reserve (exPlugin [GPU, RDMA, FPGA]) (exFull False 0) exCycle [] ''node-1''
     = (Some (Unschedulable, ''Insufficient Devices''),
        (exFull False 0)
          \<lparr>trace := [EvGetNodeDevice ''node-1'', EvLock ''node-1'', EvAllocate ''node-1'',
                     EvUnlock ''node-1'']\<rparr>)"
proof -
  have full: "getPreFilterState (exFull False 0) exCycle = Inr (0, exState False)"
    "nodeDeviceInfos (exFull False 0) ''node-1''
       = Some [\<lparr>deviceType = GPU, minorID = 0, totalCapacity = 100, usedCapacity = 100,
                healthy = True\<rparr>]"
    by (simp_all add: getPreFilterState_def exFull_def exReady_def exCycle_def exWorld_def)
  show ?thesis
    using Reserve_revalidates_under_lock[OF ex_get[of False 0] ex_not_skip ex_node[of False 0]
        ex_alloc[of "[GPU, RDMA, FPGA]" "[]"]]
      Reserve_revalidates_under_lock[OF full(1) ex_not_skip full(2)
        ex_alloc_full[of "[GPU, RDMA, FPGA]" "[]"]]
    by (simp add: exFull_def exReady_def exWorld_def exPlugin_def exAllocator_def exNode_def
        exAdjust_def NewStatus_def ErrInsufficientDevices_def)
qed

text \<open>
  Claim C4. When the attempt is not in skip and the cache has no record for the node,
  \<^verbatim>\<open>Filter\<close> (given a node) and \<^verbatim>\<open>Reserve\<close> both return the status
  UnschedulableAndUnresolvable with the reason \<^verbatim>\<open>node(s) missing Device\<close>, not an
  \<^verbatim>\<open>Error\<close> status, after one read of the cache and nothing else.
\<close>

theorem missing_device_excludes_node:
  assumes "getPreFilterState w cs = Inr (sref, st)" and "\<not> skip st"
    and "nodeDeviceInfos w n = None"
  shows "Filter p w cs pod (Some n) =
           (NewStatus UnschedulableAndUnresolvable ErrMissingDevice,
            w\<lparr>trace := trace w @ [EvGetNodeDevice n]\<rparr>)
       \<and> Reserve p w cs pod n =
           (NewStatus UnschedulableAndUnresolvable ErrMissingDevice,
            w\<lparr>trace := trace w @ [EvGetNodeDevice n]\<rparr>)"
  using assms by (simp add: Filter_missing Reserve_missing)

theorem missing_device_excludes_node_witness:
  "fst (Filter (exPlugin [GPU, RDMA, FPGA]) (exReady False 0) exCycle [] (Some ''node-2''))
     = Some (UnschedulableAndUnresolvable, ''node(s) missing Device'')
   \<and> fst (Reserve (exPlugin [GPU, RDMA, FPGA]) (exReady False 0) exCycle [] ''node-2'')
     = Some (UnschedulableAndUnresolvable, ''node(s) missing Device'')"
  using missing_device_excludes_node[OF ex_get[of False 0] ex_not_skip ex_no_node[of False 0],
      where p = "exPlugin [GPU, RDMA, FPGA]" and pod = "[]"]
  by (simp add: NewStatus_def ErrMissingDevice_def)

text \<open>
  Claim C9. \<^verbatim>\<open>Unreserve\<close> on a state in skip returns the world untouched; on a
  state not in skip and a node without a record it reads the cache and returns. In both
  cases no lock is taken and no record, state or API object changes.
\<close>

theorem Unreserve_without_reservation:
  assumes "getPreFilterState w cs = Inr (sref, st)"
    and "skip st \<or> nodeDeviceInfos w n = None"
  shows "Unreserve p w cs pod n = (if skip st then w else w\<lparr>trace := trace w @ [EvGetNodeDevice n]\<rparr>)"
  using assms by (auto simp: Unreserve_skip Unreserve_missing)

theorem Unreserve_without_reservation_witness:
  "Unreserve (exPlugin [GPU, RDMA, FPGA]) (exReady True 0) exCycle [] ''node-1'' = exReady True 0
   \<and> Unreserve (exPlugin [GPU, RDMA, FPGA]) (exReady False 0) exCycle [] ''node-2''
       = (exReady False 0)\<lparr>trace := [EvGetNodeDevice ''node-2'']\<rparr>"
proof -
  have a: "skip (exState True) \<or> nodeDeviceInfos (exReady True 0) ''node-1'' = None"
    by (simp add: exState_def)
  have b: "skip (exState False) \<or> nodeDeviceInfos (exReady False 0) ''node-2'' = None"
    by (simp add: ex_no_node)
  have t: "trace (exReady False 0) = []" by (simp add: exReady_def exWorld_def)
  show ?thesis
    using Unreserve_without_reservation[OF ex_get a, where p = "exPlugin [GPU, RDMA, FPGA]" and pod = "[]"]
      Unreserve_without_reservation[OF ex_get b, where p = "exPlugin [GPU, RDMA, FPGA]" and pod = "[]"]
    by (simp add: exState_def t)
qed

section \<open>The skip state\<close>

lemma loop_absent:
  "\<forall>t\<in>set ts. t = GPU \<or> t = RDMA \<or> t = FPGA \<longrightarrow> \<not> hasDeviceResource p req t \<Longrightarrow>
   PreFilter_loop p req ts st = Inr st"
  by (induction ts) (auto simp: PreFilter_body_def)

text \<open>
  Claim C3. When no device type of the table that the switch recognizes is present in
  the pod's ask, \<^verbatim>\<open>PreFilter\<close> succeeds and writes a state with \<open>skip\<close> set, and
  \<^verbatim>\<open>Filter\<close>, \<^verbatim>\<open>Reserve\<close>, \<^verbatim>\<open>Unreserve\<close> and \<^verbatim>\<open>PreBind\<close> on it return
  success with the world exactly as it was: the trace gets no event, so the device cache
  is not read, and no record changes.
\<close>

theorem skip_state_makes_phases_noops:
  assumes absent: "\<forall>t\<in>set (DeviceResourceNames p). t = GPU \<or> t = RDMA \<or> t = FPGA \<longrightarrow>
                     \<not> hasDeviceResource p (PodRequestsAndLimits p pod) t"
    and run: "PreFilter p w cs pod = (status, w1, cs1)"
  shows "status = None
       \<and> (\<exists>sref st. getPreFilterState w1 cs1 = Inr (sref, st) \<and> skip st)
       \<and> Filter p w1 cs1 pod nodeInfo = (None, w1)
       \<and> Reserve p w1 cs1 pod nodeName = (None, w1)
       \<and> Unreserve p w1 cs1 pod nodeName = w1
       \<and> PreBind p w1 cs1 pod nodeName = (None, w1)"
proof -
  let ?init = "\<lparr>skip = True, allocationResult = [], convertedDeviceResource = Map.empty\<rparr>"
  from loop_absent[OF absent] have
    "PreFilter_loop p (PodRequestsAndLimits p pod) (DeviceResourceNames p) ?init = Inr ?init" .
  from PreFilter_ok[OF this, of w cs] run
  have st: "status = None"
    and w1: "w1 = w\<lparr>heap := (heap w)(nextRef w \<mapsto> ?init), nextRef := Suc (nextRef w)\<rparr>"
    and cs1: "cs1 = cs(stateKey \<mapsto> nextRef w)"
    by simp_all
  have get: "getPreFilterState w1 cs1 = Inr (nextRef w, ?init)"
    by (simp add: getPreFilterState_Inr w1 cs1)
  have sk: "skip ?init" by simp
  show ?thesis
    using st get Filter_skip[OF get sk, of p pod nodeInfo] Reserve_skip[OF get sk, of p pod nodeName]
      Unreserve_skip[OF get sk, of p pod nodeName] PreBind_skip[OF get sk, of p pod nodeName]
    by simp
qed

theorem skip_state_makes_phases_noops_witness:
  "fst (PreFilter (exPlugin [GPU, RDMA, FPGA]) (exWorld 0) Map.empty [(''cpu'', 2)]) = None
   \<and> Filter (exPlugin [GPU, RDMA, FPGA]) (exReady True 0) exCycle [(''cpu'', 2)] (Some ''node-1'')
       = (None, exReady True 0)
   \<and> Reserve (exPlugin [GPU, RDMA, FPGA]) (exReady True 0) exCycle [(''cpu'', 2)] ''node-1''
       = (None, exReady True 0)
   \<and> Unreserve (exPlugin [GPU, RDMA, FPGA]) (exReady True 0) exCycle [(''cpu'', 2)] ''node-1''
       = exReady True 0
   \<and> PreBind (exPlugin [GPU, RDMA, FPGA]) (exReady True 0) exCycle [(''cpu'', 2)] ''node-1''
       = (None, exReady True 0)"
proof -
  let ?p = "exPlugin [GPU, RDMA, FPGA]"
  let ?pod = "[(''cpu'', 2 :: int)]"
  have absent: "\<forall>t\<in>set (DeviceResourceNames ?p). t = GPU \<or> t = RDMA \<or> t = FPGA \<longrightarrow>
                  \<not> hasDeviceResource ?p (PodRequestsAndLimits ?p ?pod) t"
    by (simp add: exPlugin_def exHas_def)
  have run: "PreFilter ?p (exWorld 0) Map.empty ?pod = (None, exReady True 0, exCycle)"
    by (simp add: PreFilter_def PreFilter_body_def exPlugin_def exHas_def exReady_def exWorld_def
        exCycle_def exState_def)
  from skip_state_makes_phases_noops[OF absent run] run
  show ?thesis by simp
qed

section \<open>The tentative check is read-only\<close>

lemma ex_dry:
  "\<forall>n pod req nd. snd (snd (Allocator_Allocate (allocator (exPlugin order)) n pod req nd)) = nd"
  by (simp add: exPlugin_def exAllocator_def exAllocate_def split: option.splits)

text \<open>
  Claim C5. Given an allocator whose \<^verbatim>\<open>Allocate\<close> is a dry run (it leaves the record
  it is handed as it was), \<^verbatim>\<open>Filter\<close> changes nothing but the trace, whatever it
  returns: the cache, the attempt states and the API server are as before, and the events
  it adds are the cache read alone, or the cache read followed by the shared lock, the
  call of \<^verbatim>\<open>Allocate\<close> and the shared unlock. The exclusive lock is never taken.
\<close>

theorem Filter_is_read_only:
  assumes dry: "\<forall>n pod req nd. snd (snd (Allocator_Allocate (allocator p) n pod req nd)) = nd"
    and run: "Filter p w cs pod nodeInfo = (status, w')"
  shows "nodeDeviceInfos w' = nodeDeviceInfos w \<and> heap w' = heap w \<and> nextRef w' = nextRef w
       \<and> apiserver w' = apiserver w
       \<and> (trace w' = trace w
          \<or> (\<exists>n. nodeInfo = Some n
                \<and> (trace w' = trace w @ [EvGetNodeDevice n]
                   \<or> trace w' = trace w @ [EvGetNodeDevice n, EvRLock n, EvAllocate n, EvRUnlock n])))"
proof (cases "\<exists>sref st n nd. getPreFilterState w cs = Inr (sref, st) \<and> \<not> skip st
                \<and> nodeInfo = Some n \<and> nodeDeviceInfos w n = Some nd")
  case True
  then obtain sref st n nd where h: "getPreFilterState w cs = Inr (sref, st)" "\<not> skip st"
    "nodeDeviceInfos w n = Some nd" and ni: "nodeInfo = Some n" by blast
  obtain r err nd' where
    al: "Allocator_Allocate (allocator p) n pod (convertedDeviceResource st) nd = (r, err, nd')"
    by (cases "Allocator_Allocate (allocator p) n pod (convertedDeviceResource st) nd") auto
  with dry have "nd' = nd" by (metis snd_conv)
  with Filter_run[OF h al] run ni h(3) show ?thesis
    by (auto simp: map_upd_triv)
next
  case False
  with run show ?thesis
    by (auto simp: Filter_def emit_def NewStatus_def split: sum.splits if_splits option.splits)
qed

theorem Filter_is_read_only_witness:
  "fst (Filter (exPlugin [GPU, RDMA, FPGA]) (exReady False 0) exCycle [] (Some ''node-1'')) = None
   \<and> nodeDeviceInfos (snd (Filter (exPlugin [GPU, RDMA, FPGA]) (exReady False 0) exCycle []
        (Some ''node-1''))) = nodeDeviceInfos (exReady False 0)
   \<and> heap (snd (Filter (exPlugin [GPU, RDMA, FPGA]) (exReady False 0) exCycle []
        (Some ''node-1''))) = heap (exReady False 0)
   \<and> fst (Filter (exPlugin [GPU, RDMA, FPGA]) (exFull False 0) exCycle [] (Some ''node-1''))
       = Some (Unschedulable, ''Insufficient Devices'')
   \<and> nodeDeviceInfos (snd (Filter (exPlugin [GPU, RDMA, FPGA]) (exFull False 0) exCycle []
        (Some ''node-1''))) = nodeDeviceInfos (exFull False 0)"
proof -
  let ?p = "exPlugin [GPU, RDMA, FPGA] :: ((string \<times> int) list, NodeDeviceRecord, nat) Plugin"
  have full: "getPreFilterState (exFull False 0) exCycle = Inr (0, exState False)"
    "nodeDeviceInfos (exFull False 0) ''node-1''
       = Some [\<lparr>deviceType = GPU, minorID = 0, totalCapacity = 100, usedCapacity = 100,
                healthy = True\<rparr>]"
    by (simp_all add: getPreFilterState_def exFull_def exReady_def exCycle_def exWorld_def)
  have run: "Filter ?p (exReady False 0) exCycle [] (Some ''node-1'')
     = (None, snd (Filter ?p (exReady False 0) exCycle [] (Some ''node-1'')))"
    using Filter_run[OF ex_get[of False 0] ex_not_skip ex_node[of False 0]
        ex_alloc[of "[GPU, RDMA, FPGA]" "[]"]]
    by simp
  have run': "Filter ?p (exFull False 0) exCycle [] (Some ''node-1'')
     = (Some (Unschedulable, ''Insufficient Devices''),
        snd (Filter ?p (exFull False 0) exCycle [] (Some ''node-1'')))"
    using Filter_run[OF full(1) ex_not_skip full(2) ex_alloc_full[of "[GPU, RDMA, FPGA]" "[]"]]
    by (simp add: NewStatus_def ErrInsufficientDevices_def)
  from Filter_is_read_only[OF ex_dry run] Filter_is_read_only[OF ex_dry run'] run run'
  show ?thesis
    by (metis fst_conv)
qed

section \<open>Validation errors\<close>

lemma loop_fails:
  assumes "t \<in> set ts" and "\<And>st. isl (PreFilter_body p req t st)"
  shows "isl (PreFilter_loop p req ts st)"
  using assms(1)
proof (induction ts arbitrary: st)
  case Nil
  then show ?case by simp
next
  case (Cons a ts)
  show ?case
  proof (cases "PreFilter_body p req a st")
    case (Inl e)
    then show ?thesis by simp
  next
    case (Inr st')
    with assms(2)[of st] have "a \<noteq> t" by auto
    with Cons.prems have "t \<in> set ts" by simp
    from Cons.IH[OF this] Inr show ?thesis by simp
  qed
qed

text \<open>
  Claim C6. If a device type of the table is present in the pod's ask and its validator
  rejects the ask (\<^verbatim>\<open>ValidateGPURequest\<close> for GPU, \<^verbatim>\<open>validateCommonDeviceRequest\<close>
  for RDMA and FPGA), then \<^verbatim>\<open>PreFilter\<close> returns a status with code \<^verbatim>\<open>Error\<close>,
  in whatever order the table is visited, and writes no state.
\<close>

theorem validation_error_aborts_PreFilter:
  assumes "t \<in> set (DeviceResourceNames p)"
    and "hasDeviceResource p (PodRequestsAndLimits p pod) t"
    and "(t = GPU \<and> isl (ValidateGPURequest p (PodRequestsAndLimits p pod)))
       \<or> ((t = RDMA \<or> t = FPGA)
           \<and> validateCommonDeviceRequest p (PodRequestsAndLimits p pod) t \<noteq> None)"
  shows "\<exists>msg. PreFilter p w cs pod = (NewStatus Error msg, w, cs)"
proof -
  let ?init = "\<lparr>skip = True, allocationResult = [], convertedDeviceResource = Map.empty\<rparr>"
  have "\<And>st. isl (PreFilter_body p (PodRequestsAndLimits p pod) t st)"
    using assms(2,3) by (auto simp: PreFilter_body_def isl_def split: sum.splits)
  from loop_fails[OF assms(1) this, of ?init] obtain e where
    "PreFilter_loop p (PodRequestsAndLimits p pod) (DeviceResourceNames p) ?init = Inl e"
    by (auto simp: isl_def)
  from PreFilter_err[OF this] show ?thesis by blast
qed

theorem validation_error_aborts_PreFilter_witness:
  "PreFilter (exPlugin [RDMA, GPU, FPGA]) (exWorld 0) Map.empty
      [(''koordinator.sh/rdma'', 1), (''koordinator.sh/gpu-core'', - 5)]
     = (Some (Error, ''request is not valid''), exWorld 0, Map.empty)"
proof -
  let ?p = "exPlugin [RDMA, GPU, FPGA] :: ((string \<times> int) list, NodeDeviceRecord, nat) Plugin"
  let ?pod = "[(''koordinator.sh/rdma'', 1), (''koordinator.sh/gpu-core'', - 5 :: int)]"
  have a: "GPU \<in> set (DeviceResourceNames ?p)" by (simp add: exPlugin_def)
  have b: "hasDeviceResource ?p (PodRequestsAndLimits ?p ?pod) GPU"
    by (simp add: exPlugin_def exHas_def)
  have c: "(GPU = GPU \<and> isl (ValidateGPURequest ?p (PodRequestsAndLimits ?p ?pod)))
       \<or> ((GPU = RDMA \<or> GPU = FPGA)
           \<and> validateCommonDeviceRequest ?p (PodRequestsAndLimits ?p ?pod) GPU \<noteq> None)"
    by (simp add: exPlugin_def exValidateGPU_def)
  have ev: "fst (PreFilter ?p (exWorld 0) Map.empty ?pod) = Some (Error, ''request is not valid'')"
    by (simp add: Let_def PreFilter_def PreFilter_body_def exPlugin_def exHas_def exValidateGPU_def
        exValidateCommon_def)
  from validation_error_aborts_PreFilter[OF a b c, of "exWorld 0" Map.empty] ev
  show ?thesis by (auto simp: NewStatus_def)
qed

section \<open>Clone\<close>

lemma Reserve_success:
  assumes "getPreFilterState w cs = Inr (sref, st)" and "\<not> skip st"
    and "nodeDeviceInfos w n = Some nd"
    and "Allocator_Allocate (allocator p) n pod (convertedDeviceResource st) nd = (r, err, nd')"
    and "Reserve p w cs pod n = (None, w')"
  shows "err = None \<and> r \<noteq> []
       \<and> w' = w\<lparr>nodeDeviceInfos := (nodeDeviceInfos w)(n \<mapsto> Allocator_Reserve (allocator p) pod nd' r),
                heap := (heap w)(sref \<mapsto> st\<lparr>allocationResult := r\<rparr>),
                trace := trace w @ [EvGetNodeDevice n, EvLock n, EvAllocate n, EvReserve n, EvUnlock n]\<rparr>"
  using Reserve_run[OF assms(1-4)] assms(5)
  by (auto simp: NewStatus_def split: if_splits)

lemma phases_read_state_only:
  assumes "getPreFilterState w cs' = getPreFilterState w cs"
  shows "PreBind p w cs' pod n = PreBind p w cs pod n"
    and "Unreserve p w cs' pod n = Unreserve p w cs pod n"
    and "Reserve p w cs' pod n = Reserve p w cs pod n"
    and "Filter p w cs' pod nodeInfo = Filter p w cs pod nodeInfo"
  using assms by (simp_all add: PreBind_def Unreserve_def Reserve_def Filter_def)

text \<open>
  Claim C10. \<^verbatim>\<open>Clone\<close> returns the address it is called on. A cycle state that holds
  the clone therefore reads the very object that \<^verbatim>\<open>Reserve\<close> wrote through the
  original: the allocation result is seen there, and \<^verbatim>\<open>PreBind\<close> and
  \<^verbatim>\<open>Unreserve\<close> behave the same through either cycle state.
\<close>

theorem Clone_shares_the_state:
  assumes "getPreFilterState w cs = Inr (sref, st)" and "\<not> skip st"
    and "nodeDeviceInfos w n = Some nd"
    and "Allocator_Allocate (allocator p) n pod (convertedDeviceResource st) nd = (r, err, nd')"
    and "Reserve p w cs pod n = (None, w')"
    and "cs' stateKey = Some (Clone sref)"
  shows "Clone sref = sref
       \<and> getPreFilterState w' cs' = Inr (sref, st\<lparr>allocationResult := r\<rparr>)
       \<and> PreBind p w' cs' pod n = PreBind p w' cs pod n
       \<and> Unreserve p w' cs' pod n = Unreserve p w' cs pod n"
proof -
  from Reserve_success[OF assms(1-5)] have
    hp: "heap w' sref = Some (st\<lparr>allocationResult := r\<rparr>)" by simp
  from assms(1) have key: "cs stateKey = Some sref" by (simp add: getPreFilterState_Inr)
  from assms(6) have key': "cs' stateKey = Some sref" by (simp add: Clone_def)
  have g': "getPreFilterState w' cs' = Inr (sref, st\<lparr>allocationResult := r\<rparr>)"
    using hp key' by (simp add: getPreFilterState_Inr)
  have g: "getPreFilterState w' cs = Inr (sref, st\<lparr>allocationResult := r\<rparr>)"
    using hp key by (simp add: getPreFilterState_Inr)
  from g g' have same: "getPreFilterState w' cs' = getPreFilterState w' cs" by simp
  show ?thesis
    using g' phases_read_state_only(1,2)[OF same, of p pod n] by (simp add: Clone_def)
qed

theorem Clone_shares_the_state_witness:
  "Clone 0 = 0
   \<and> getPreFilterState
        (snd (Reserve (exPlugin [GPU, RDMA, FPGA]) (exReady False 0) exCycle [] ''node-1''))
        [stateKey \<mapsto> Clone 0]
      = Inr (0, (exState False)\<lparr>allocationResult := [(GPU, [(0, 50)])]\<rparr>)"
proof -
  let ?p = "exPlugin [GPU, RDMA, FPGA] :: ((string \<times> int) list, NodeDeviceRecord, nat) Plugin"
  have run: "Reserve ?p (exReady False 0) exCycle [] ''node-1''
     = (None, snd (Reserve ?p (exReady False 0) exCycle [] ''node-1''))"
    using Reserve_run[OF ex_get[of False 0] ex_not_skip ex_node[of False 0]
        ex_alloc[of "[GPU, RDMA, FPGA]" "[]"]]
    by simp
  have key: "[stateKey \<mapsto> Clone 0] stateKey = Some (Clone 0)" by simp
  from Clone_shares_the_state[where cs' = "[stateKey \<mapsto> Clone 0]",
      OF ex_get[of False 0] ex_not_skip ex_node[of False 0]
      ex_alloc[of "[GPU, RDMA, FPGA]" "[]"] run key]
  show ?thesis by blast
qed

section \<open>Persistence and rollback\<close>

lemma ex_refused:
  "refused (exPlugin order) pod b (Suc (retryLimit (exPlugin order))) (apiserver (exReady s 10))"
  by (simp add: numeral_3_eq_3 exPlugin_def exPatch_def retriable_def exReady_def exWorld_def)

lemma ex_inverse:
  "Allocator_Unreserve (allocator (exPlugin order)) pod
     (Allocator_Reserve (allocator (exPlugin order)) pod exNode [(GPU, [(0, 50)])])
     [(GPU, [(0, 50)])] = exNode"
  by (simp add: exPlugin_def exAllocator_def exNode_def exAdjust_def)

text \<open>
  Claim C8. Once \<^verbatim>\<open>PreBind\<close> has built the patch, all it does is call the API
  client's \<^verbatim>\<open>Patch\<close> inside the retry wrapper: between one and the wrapper's bound
  of calls, no call of the allocator, no change to the device cache or to the attempt
  state. When every try up to the bound is refused with an error the wrapper retries,
  the bound is reached and \<^verbatim>\<open>PreBind\<close> returns that error as a status with code
  \<^verbatim>\<open>Error\<close>.
\<close>

theorem PreBind_retries_only_the_write:
  assumes "getPreFilterState w cs = Inr (sref, st)" and "\<not> skip st"
    and "SetDeviceAllocations p pod (allocationResult st) = Inr newPod"
    and "GeneratePodPatch p pod newPod = Inr patchBytes"
    and "PreBind p w cs pod n = (status, w')"
  shows "nodeDeviceInfos w' = nodeDeviceInfos w \<and> heap w' = heap w \<and> nextRef w' = nextRef w
       \<and> (\<exists>j. 1 \<le> j \<and> j \<le> Suc (retryLimit p) \<and> trace w' = trace w @ replicate j EvPatch)
       \<and> (refused p pod patchBytes (Suc (retryLimit p)) (apiserver w) \<longrightarrow>
            (\<exists>e. retriable e \<and> status = NewStatus Error (err_Error e))
            \<and> trace w' = trace w @ replicate (Suc (retryLimit p)) EvPatch)"
proof -
  obtain e w'' where
    run: "RetryOnConflictOrTooManyRequests (retryLimit p) (patchPod p pod patchBytes) w = (e, w'')"
    by (cases "RetryOnConflictOrTooManyRequests (retryLimit p) (patchPod p pod patchBytes) w")
  from PreBind_run[OF assms(1-4), of n] assms(5) run
  have w': "w' = w''" and st: "status = (case e of None \<Rightarrow> None | Some x \<Rightarrow> NewStatus Error (err_Error x))"
    by (auto split: option.splits)
  have frame: "nodeDeviceInfos w' = nodeDeviceInfos w \<and> heap w' = heap w \<and> nextRef w' = nextRef w
       \<and> (\<exists>j. 1 \<le> j \<and> j \<le> Suc (retryLimit p) \<and> trace w' = trace w @ replicate j EvPatch)"
    using retry_frame[OF run] w' by simp
  have exhausted: "(\<exists>e. retriable e \<and> status = NewStatus Error (err_Error e))
            \<and> trace w' = trace w @ replicate (Suc (retryLimit p)) EvPatch"
    if "refused p pod patchBytes (Suc (retryLimit p)) (apiserver w)"
  proof -
    from retry_exhausted[OF that] run obtain x where "e = Some x" and "retriable x"
      and "trace w'' = trace w @ replicate (Suc (retryLimit p)) EvPatch"
      by auto
    with st w' show ?thesis by auto
  qed
  from frame exhausted show ?thesis by blast
qed

theorem PreBind_retries_only_the_write_witness:
  "fst (PreBind (exPlugin [GPU, RDMA, FPGA]) (exReady False 10) exCycle [] ''node-1'')
     = Some (Error, ''conflict'')
   \<and> trace (snd (PreBind (exPlugin [GPU, RDMA, FPGA]) (exReady False 10) exCycle [] ''node-1''))
     = [EvPatch, EvPatch, EvPatch, EvPatch]
   \<and> nodeDeviceInfos (snd (PreBind (exPlugin [GPU, RDMA, FPGA]) (exReady False 10) exCycle []
         ''node-1'')) = nodeDeviceInfos (exReady False 10)"
proof -
  let ?p = "exPlugin [GPU, RDMA, FPGA] :: ((string \<times> int) list, NodeDeviceRecord, nat) Plugin"
  have a: "SetDeviceAllocations ?p [] (allocationResult (exState False)) = Inr []"
    by (simp add: exPlugin_def)
  have b: "GeneratePodPatch ?p [] [] = Inr ''{}''" by (simp add: exPlugin_def)
  have run: "PreBind ?p (exReady False 10) exCycle [] ''node-1''
     = (fst (PreBind ?p (exReady False 10) exCycle [] ''node-1''),
        snd (PreBind ?p (exReady False 10) exCycle [] ''node-1''))" by simp
  have lim: "Suc (retryLimit ?p) = 4" by (simp add: exPlugin_def)
  have api: "apiserver (exReady False 10) = 10" and tr: "trace (exReady False 10) = []"
    by (simp_all add: exReady_def exWorld_def)
  have ev: "fst (PreBind ?p (exReady False 10) exCycle [] ''node-1'') = Some (Error, ''conflict'')"
    using PreBind_run[OF ex_get[of False 10] ex_not_skip a b, of "''node-1''"]
    by (simp add: exPlugin_def patchPod_def exPatch_def retriable_def numeral_3_eq_3 NewStatus_def
        emit_def exReady_def exWorld_def)
  from PreBind_retries_only_the_write[OF ex_get[of False 10] ex_not_skip a b run]
    ex_refused[of "[GPU, RDMA, FPGA]" "[]" "''{}''" False] ev
  show ?thesis by (simp add: tr exPlugin_def numeral_3_eq_3)
qed

text \<open>
  Claim C2. Let \<^verbatim>\<open>Reserve\<close> succeed on a node, by an \<^verbatim>\<open>Allocate\<close> that left the
  record as it was, and let the persistence step that follows fail. The coordinator then
  invokes \<^verbatim>\<open>Unreserve\<close>, which hands the allocator the allocation that
  \<^verbatim>\<open>Reserve\<close> had stored in the attempt state. Provided the allocator's
  \<^verbatim>\<open>Unreserve\<close> undoes its \<^verbatim>\<open>Reserve\<close> on that record, the device cache is back
  to what it was before \<^verbatim>\<open>Reserve\<close>, the stored allocation is cleared, and the
  trace shows the reservation, the writes and the rollback in this order.
\<close>

theorem failed_persist_is_rolled_back:
  assumes get: "getPreFilterState w cs = Inr (sref, st)" and ns: "\<not> skip st"
    and nd: "nodeDeviceInfos w n = Some nd"
    and al: "Allocator_Allocate (allocator p) n pod (convertedDeviceResource st) nd = (r, None, nd)"
    and ne: "r \<noteq> []"
    and inverse: "Allocator_Unreserve (allocator p) pod (Allocator_Reserve (allocator p) pod nd r) r = nd"
    and res: "Reserve p w cs pod n = (status, w1)"
    and fail: "persistOrRollback p w1 cs pod n = (Some failure, w2)"
  shows "status = None
       \<and> nodeDeviceInfos w1 n = Some (Allocator_Reserve (allocator p) pod nd r)
       \<and> nodeDeviceInfos w2 = nodeDeviceInfos w
       \<and> heap w2 = (heap w)(sref \<mapsto> st\<lparr>allocationResult := []\<rparr>)
       \<and> (\<exists>j\<le>Suc (retryLimit p).
             trace w2 = trace w @ [EvGetNodeDevice n, EvLock n, EvAllocate n, EvReserve n, EvUnlock n]
                        @ replicate j EvPatch
                        @ [EvGetNodeDevice n, EvLock n, EvUnreserve n, EvUnlock n])"
proof -
  let ?st1 = "st\<lparr>allocationResult := r\<rparr>"
  let ?nd1 = "Allocator_Reserve (allocator p) pod nd r"
  from Reserve_run[OF get ns nd al] ne res
  have status: "status = None"
    and w1: "w1 = w\<lparr>nodeDeviceInfos := (nodeDeviceInfos w)(n \<mapsto> ?nd1),
                    heap := (heap w)(sref \<mapsto> ?st1),
                    trace := trace w @ [EvGetNodeDevice n, EvLock n, EvAllocate n, EvReserve n, EvUnlock n]\<rparr>"
    by simp_all
  obtain bs wb where pb: "PreBind p w1 cs pod n = (bs, wb)" by (cases "PreBind p w1 cs pod n")
  with fail have w2: "w2 = Unreserve p wb cs pod n"
    by (auto simp: persistOrRollback_def split: option.splits)
  from PreBind_frame[OF pb] obtain j where j: "j \<le> Suc (retryLimit p)"
    and wb: "nodeDeviceInfos wb = nodeDeviceInfos w1" "heap wb = heap w1"
      "trace wb = trace w1 @ replicate j EvPatch"
    by blast
  from get have key: "cs stateKey = Some sref" by (simp add: getPreFilterState_Inr)
  have getb: "getPreFilterState wb cs = Inr (sref, ?st1)"
    using key wb(2) w1 by (simp add: getPreFilterState_Inr)
  have ns1: "\<not> skip ?st1" using ns by simp
  have ndb: "nodeDeviceInfos wb n = Some ?nd1" using wb(1) w1 by simp
  note un = Unreserve_run[OF getb ns1 ndb, of p pod]
  have "nodeDeviceInfos w2 = (nodeDeviceInfos w)(n \<mapsto> nd)"
    using un w2 wb(1) w1 inverse by simp
  then have c3: "nodeDeviceInfos w2 = nodeDeviceInfos w" using nd by (simp add: map_upd_triv)
  have c4: "heap w2 = (heap w)(sref \<mapsto> st\<lparr>allocationResult := []\<rparr>)"
    using un w2 wb(2) w1 by simp
  have c5: "trace w2 = trace w @ [EvGetNodeDevice n, EvLock n, EvAllocate n, EvReserve n, EvUnlock n]
                        @ replicate j EvPatch
                        @ [EvGetNodeDevice n, EvLock n, EvUnreserve n, EvUnlock n]"
    using un w2 wb(3) w1 by simp
  from status w1 c3 c4 c5 j show ?thesis by auto
qed

theorem failed_persist_is_rolled_back_witness:
  "fst (Reserve (exPlugin [GPU, RDMA, FPGA]) (exReady False 10) exCycle [] ''node-1'') = None
   \<and> nodeDeviceInfos (snd (Reserve (exPlugin [GPU, RDMA, FPGA]) (exReady False 10) exCycle []
         ''node-1'')) ''node-1''
       = Some [\<lparr>deviceType = GPU, minorID = 0, totalCapacity = 100, usedCapacity = 50,
                healthy = True\<rparr>]
   \<and> fst (persistOrRollback (exPlugin [GPU, RDMA, FPGA])
            (snd (Reserve (exPlugin [GPU, RDMA, FPGA]) (exReady False 10) exCycle [] ''node-1''))
            exCycle [] ''node-1'') = Some (Error, ''conflict'')
   \<and> nodeDeviceInfos (snd (persistOrRollback (exPlugin [GPU, RDMA, FPGA])
            (snd (Reserve (exPlugin [GPU, RDMA, FPGA]) (exReady False 10) exCycle [] ''node-1''))
            exCycle [] ''node-1'')) ''node-1''
       = Some [\<lparr>deviceType = GPU, minorID = 0, totalCapacity = 100, usedCapacity = 0,
                healthy = True\<rparr>]"
proof -
  let ?p = "exPlugin [GPU, RDMA, FPGA] :: ((string \<times> int) list, NodeDeviceRecord, nat) Plugin"
  let ?w1 = "snd (Reserve ?p (exReady False 10) exCycle [] ''node-1'')"
  have ne: "[(GPU, [(0, 50 :: int)])] \<noteq> ([] :: DeviceAllocations)" by simp
  note rr = Reserve_run[OF ex_get[of False 10] ex_not_skip ex_node[of False 10]
      ex_alloc[of "[GPU, RDMA, FPGA]" "[]"]]
  have res: "Reserve ?p (exReady False 10) exCycle [] ''node-1''
      = (fst (Reserve ?p (exReady False 10) exCycle [] ''node-1''), ?w1)" by simp
  have get1: "getPreFilterState ?w1 exCycle
      = Inr (0, (exState False)\<lparr>allocationResult := [(GPU, [(0, 50)])]\<rparr>)"
    using rr by (simp add: getPreFilterState_Inr exCycle_def)
  have ns1: "\<not> skip ((exState False)\<lparr>allocationResult := [(GPU, [(0, 50)])]\<rparr>)"
    by (simp add: exState_def)
  have a: "SetDeviceAllocations ?p []
      (allocationResult ((exState False)\<lparr>allocationResult := [(GPU, [(0, 50)])]\<rparr>)) = Inr []"
    by (simp add: exPlugin_def)
  have b: "GeneratePodPatch ?p [] [] = Inr ''{}''" by (simp add: exPlugin_def)
  have api1: "apiserver ?w1 = 10" using rr by (simp add: exReady_def exWorld_def)
  have pbs: "fst (PreBind ?p ?w1 exCycle [] ''node-1'') = Some (Error, ''conflict'')"
    using PreBind_run[OF get1 ns1 a b, of "''node-1''"] api1
    by (simp add: exPlugin_def patchPod_def exPatch_def retriable_def numeral_3_eq_3 NewStatus_def
        emit_def)
  then have fail: "persistOrRollback ?p ?w1 exCycle [] ''node-1''
      = (Some (Error, ''conflict''), snd (persistOrRollback ?p ?w1 exCycle [] ''node-1''))"
    by (auto simp: persistOrRollback_def split: prod.splits option.splits)
  note main = failed_persist_is_rolled_back[OF ex_get[of False 10] ex_not_skip
      ex_node[of False 10] ex_alloc[of "[GPU, RDMA, FPGA]" "[]"] ne
      ex_inverse[of "[GPU, RDMA, FPGA]" "[]"] res fail]
  have reserved: "Allocator_Reserve (allocator ?p) [] exNode [(GPU, [(0, 50)])]
      = [\<lparr>deviceType = GPU, minorID = 0, totalCapacity = 100, usedCapacity = 50,
          healthy = True\<rparr>]"
    by (simp add: exPlugin_def exAllocator_def exNode_def exAdjust_def)
  have c1: "fst (Reserve ?p (exReady False 10) exCycle [] ''node-1'') = None"
    using main by blast
  have c2: "nodeDeviceInfos ?w1 ''node-1''
      = Some [\<lparr>deviceType = GPU, minorID = 0, totalCapacity = 100, usedCapacity = 50,
               healthy = True\<rparr>]"
    using main reserved by simp
  have c3: "fst (persistOrRollback ?p ?w1 exCycle [] ''node-1'') = Some (Error, ''conflict'')"
    using fail by (metis fst_conv)
  have "nodeDeviceInfos (snd (persistOrRollback ?p ?w1 exCycle [] ''node-1''))
      = nodeDeviceInfos (exReady False 10)"
    using main by blast
  then have c4: "nodeDeviceInfos (snd (persistOrRollback ?p ?w1 exCycle [] ''node-1'')) ''node-1''
      = Some [\<lparr>deviceType = GPU, minorID = 0, totalCapacity = 100, usedCapacity = 0,
               healthy = True\<rparr>]"
    by (simp add: ex_node exNode_def)
  from c1 c2 c3 c4 show ?thesis by blast
qed

end
